theory Spec2Isabelle
  imports Complex_Main "HOL-Library.Stream"
begin

section \<open>The signalling relay of src/Server/index.ts\<close>

text \<open>
  The relay keeps two tables, \<open>rooms\<close> (a JavaScript \<open>Map\<close> from room code to room)
  and \<open>sessionData\<close> (a \<open>WeakMap\<close> from raw socket to session), and reacts to two
  events, \<open>handleMessage\<close> and \<open>handleClose\<close>. The embedding passes the tables
  explicitly in a record, together with what the handlers read from their environment
  (the \<open>readyState\<close> of every socket, the values \<open>Math.random()\<close> will return) and
  what they write to it (the calls of \<open>send\<close>, in order). Console output is not part
  of the model.
\<close>

subsection \<open>JavaScript values\<close>

text \<open>
  A decoded frame is a JSON value. \<open>JObj\<close> lists the own properties of an object;
  the value \<open>undefined\<close> of a missing property is \<open>None\<close> of \<open>json option\<close>.
\<close>

datatype json =
    JNull
  | JBool bool
  | JNum rat
  | JStr string
  | JArr "json list"
  | JObj "(string \<times> json) list"

datatype exn = SyntaxError | TypeError

text \<open>Property access \<open>data.k\<close> on a value that is not \<open>null\<close>, for the property
  names the relay reads (\<open>type\<close>, \<open>roomId\<close>, \<open>to\<close>): only an object has them.\<close>

fun field :: "json \<Rightarrow> string \<Rightarrow> json option" where
  "field (JObj kvs) k = map_of kvs k"
| "field _ k = None"

text \<open>JavaScript truthiness, as \<open>data.to && ...\<close> tests it.\<close>

fun truthy :: "json option \<Rightarrow> bool" where
  "truthy None = False"
| "truthy (Some JNull) = False"
| "truthy (Some (JBool b)) = b"
| "truthy (Some (JNum n)) = (n \<noteq> 0)"
| "truthy (Some (JStr s)) = (s \<noteq> [])"
| "truthy (Some (JArr xs)) = True"
| "truthy (Some (JObj kvs)) = True"

subsection \<open>JavaScript maps with string keys\<close>

text \<open>
  A \<open>Map\<close> iterates in insertion order: \<open>set\<close> on a key that is present replaces the
  value where it stands, \<open>set\<close> on a new key appends. Every key the relay stores is a
  string, so a lookup with any other value finds nothing.
\<close>

type_synonym 'v jsmap = "(string \<times> 'v) list"

definition Map_get :: "'v jsmap \<Rightarrow> string \<Rightarrow> 'v option" where
  "Map_get m k = map_of m k"

definition Map_has :: "'v jsmap \<Rightarrow> string \<Rightarrow> bool" where
  "Map_has m k = (map_of m k \<noteq> None)"

fun Map_set :: "string \<Rightarrow> 'v \<Rightarrow> 'v jsmap \<Rightarrow> 'v jsmap" where
  "Map_set k v [] = [(k, v)]"
| "Map_set k v ((k', v') # m) = (if k' = k then (k, v) # m else (k', v') # Map_set k v m)"

definition Map_delete :: "string \<Rightarrow> 'v jsmap \<Rightarrow> 'v jsmap" where
  "Map_delete k m = filter (\<lambda>kv. fst kv \<noteq> k) m"

definition Map_values :: "'v jsmap \<Rightarrow> 'v list" where
  "Map_values m = map snd m"

fun as_key :: "json option \<Rightarrow> string option" where
  "as_key (Some (JStr s)) = Some s"
| "as_key _ = None"

definition Map_get_val :: "'v jsmap \<Rightarrow> json option \<Rightarrow> 'v option" where
  "Map_get_val m v = (case as_key v of None \<Rightarrow> None | Some k \<Rightarrow> Map_get m k)"

definition Map_has_val :: "'v jsmap \<Rightarrow> json option \<Rightarrow> bool" where
  "Map_has_val m v = (case as_key v of None \<Rightarrow> False | Some k \<Rightarrow> Map_has m k)"

subsection \<open>Rooms, sessions and the state of the relay\<close>

text \<open>A connection is identified by its raw socket, the key of \<open>sessionData\<close>.\<close>

type_synonym conn = nat

record room =
  broadcaster :: conn
  viewers :: "conn jsmap"

record session =
  role :: "string option"
  roomId :: "string option"
  id_viewer :: "string option"

record state =
  rooms :: "room jsmap"
  sessionData :: "conn \<Rightarrow> session option"
  readyState :: "conn \<Rightarrow> nat"
  random_src :: "rat stream"
  sent :: "(conn \<times> json) list"

text \<open>
  \<open>room.broadcaster\<close> is always the socket that created the room, so the tests
  \<open>room.broadcaster && ...\<close> of the source are true and do not appear below. The
  fields of a session are optional in the source (\<open>role?\<close>, \<open>roomId?\<close>, \<open>id?\<close>).

  The two library functions whose result the source does not fix are parameters:
  \<open>JSON.parse\<close> (\<open>None\<close> when it throws) and \<open>Number.prototype.toString(36)\<close>.
\<close>

record runtime =
  JSON_parse :: "string \<Rightarrow> json option"
  Number_toString36 :: "rat \<Rightarrow> string"

text \<open>\<open>c.send(m)\<close>: the call is recorded. It does not throw; what the runtime does
  with a message for a socket that is not open is outside the relay.\<close>

definition send :: "conn \<Rightarrow> json \<Rightarrow> state \<Rightarrow> state" where
  "send c m st = st\<lparr>sent := sent st @ [(c, m)]\<rparr>"

definition Math_random :: "state \<Rightarrow> rat \<times> state" where
  "Math_random st = (shd (random_src st), st\<lparr>random_src := stl (random_src st)\<rparr>)"

subsection \<open>Room codes\<close>

definition digit_char :: "nat \<Rightarrow> char" where
  "digit_char d = ''0123456789'' ! d"

text \<open>\<open>toString()\<close> of a non-negative integer: its decimal digits.\<close>

fun Number_toString :: "nat \<Rightarrow> string" where
  "Number_toString n =
     (if n < 10 then [digit_char n] else Number_toString (n div 10) @ [digit_char (n mod 10)])"

declare Number_toString.simps [simp del]

text \<open>
  \<open>Math.floor(100000 + Math.random() * 900000).toString()\<close>, on the value \<open>r\<close> that
  \<open>Math.random()\<close> returned. The arithmetic is exact here; the rounding of doubles is
  monotone and leaves the largest value below 1000000, so the bounds are the same.
\<close>

definition generateRoomId :: "rat \<Rightarrow> string" where
  "generateRoomId r = Number_toString (nat \<lfloor>100000 + r * 900000\<rfloor>)"

subsection \<open>handleMessage\<close>

text \<open>The loop \<open>while (rooms.has(roomId)) roomId = generateRoomId()\<close>. It need not
  return: \<open>None\<close> is the run that never leaves the loop.\<close>

partial_function (option) while_in_use :: "string \<Rightarrow> state \<Rightarrow> (string \<times> state) option" where
  "while_in_use rid st =
     (if Map_has (rooms st) rid
      then while_in_use (generateRoomId (fst (Math_random st))) (snd (Math_random st))
      else Some (rid, st))"

definition msg_room_created :: "string \<Rightarrow> json" where
  "msg_room_created rid = JObj [(''type'', JStr ''room-created''), (''roomId'', JStr rid)]"

definition msg_error :: json where
  "msg_error = JObj [(''type'', JStr ''error''), (''message'', JStr ''Room not found'')]"

definition msg_joined_room :: "string \<Rightarrow> string \<Rightarrow> json" where
  "msg_joined_room rid vid =
     JObj [(''type'', JStr ''joined-room''), (''roomId'', JStr rid), (''viewerId'', JStr vid)]"

definition msg_viewer_connect :: "string \<Rightarrow> json" where
  "msg_viewer_connect vid = JObj [(''type'', JStr ''viewer-connect''), (''id'', JStr vid)]"

definition msg_room_closed :: json where
  "msg_room_closed = JObj [(''type'', JStr ''room-closed'')]"

definition msg_viewer_disconnect :: "string \<Rightarrow> json" where
  "msg_viewer_disconnect vid = JObj [(''type'', JStr ''viewer-disconnect''), (''id'', JStr vid)]"

text \<open>\<open>case 'create-room'\<close> (lines 31-46).\<close>

definition case_create_room :: "conn \<Rightarrow> state \<Rightarrow> state option" where
  "case_create_room ws st =
     (case while_in_use (generateRoomId (fst (Math_random st))) (snd (Math_random st)) of
        None \<Rightarrow> None
      | Some (rid, st1) \<Rightarrow>
          (let st2 = st1\<lparr>rooms := Map_set rid \<lparr>broadcaster = ws, viewers = []\<rparr> (rooms st1)\<rparr>;
               st3 = st2\<lparr>sessionData := (sessionData st2)
                        (ws \<mapsto> \<lparr>role = Some ''broadcaster'', roomId = Some rid, id_viewer = None\<rparr>)\<rparr>
           in Some (send ws (msg_room_created rid) st3)))"

text \<open>\<open>Math.random().toString(36).substr(2, 9)\<close>.\<close>

definition new_viewerId :: "runtime \<Rightarrow> rat \<Rightarrow> string" where
  "new_viewerId rt r = take 9 (drop 2 (Number_toString36 rt r))"

text \<open>\<open>case 'join-room'\<close> (lines 48-71). Only a string can be a key of \<open>rooms\<close>, so
  the \<open>roomId\<close> of a room that was found is one; \<open>room.viewers.set\<close> changes the room
  object where it stands in \<open>rooms\<close>.\<close>

definition case_join_room :: "runtime \<Rightarrow> conn \<Rightarrow> json \<Rightarrow> state \<Rightarrow> state" where
  "case_join_room rt ws data st =
     (case as_key (field data ''roomId'') of
        None \<Rightarrow> send ws msg_error st
      | Some rid \<Rightarrow>
     (case Map_get (rooms st) rid of
        None \<Rightarrow> send ws msg_error st
      | Some rm \<Rightarrow>
          (let (r, st1) = Math_random st;
               viewerId = new_viewerId rt r;
               st2 = st1\<lparr>rooms := Map_set rid (rm\<lparr>viewers := Map_set viewerId ws (viewers rm)\<rparr>)
                                      (rooms st1)\<rparr>;
               st3 = st2\<lparr>sessionData := (sessionData st2)
                        (ws \<mapsto> \<lparr>role = Some ''viewer'', roomId = Some rid,
                                 id_viewer = Some viewerId\<rparr>)\<rparr>;
               st4 = send ws (msg_joined_room rid viewerId) st3
           in if readyState st4 (broadcaster rm) = 1
              then send (broadcaster rm) (msg_viewer_connect viewerId) st4
              else st4)))"

text \<open>Forwarding to the viewer named by \<open>data.to\<close>:
  \<open>if (data.to && room.viewers.has(data.to)) room.viewers.get(data.to).send(data)\<close>.\<close>

definition forward_to_viewer :: "room \<Rightarrow> json \<Rightarrow> state \<Rightarrow> state" where
  "forward_to_viewer rm data st =
     (if truthy (field data ''to'') \<and> Map_has_val (viewers rm) (field data ''to'')
      then (case Map_get_val (viewers rm) (field data ''to'') of
              None \<Rightarrow> st
            | Some v \<Rightarrow> send v data st)
      else st)"

text \<open>The room of the sender's session, the common start of the three relaying cases:
  \<open>if (!sData?.roomId) return; const room = rooms.get(sData.roomId)\<close>. The handler
  returns for no session, for no \<open>roomId\<close> in it, and for the empty string.\<close>

definition session_room :: "state \<Rightarrow> conn \<Rightarrow> (session \<times> room) option" where
  "session_room st ws =
     (case sessionData st ws of
        None \<Rightarrow> None
      | Some sData \<Rightarrow>
          (case roomId sData of
             None \<Rightarrow> None
           | Some rid \<Rightarrow>
               if rid = [] then None
               else (case Map_get (rooms st) rid of
                       None \<Rightarrow> None
                     | Some rm \<Rightarrow> Some (sData, rm))))"

text \<open>\<open>case 'offer'\<close> (lines 73-86).\<close>

definition case_offer :: "conn \<Rightarrow> json \<Rightarrow> state \<Rightarrow> state" where
  "case_offer ws data st =
     (case session_room st ws of
        None \<Rightarrow> st
      | Some (sData, rm) \<Rightarrow> forward_to_viewer rm data st)"

text \<open>\<open>case 'answer'\<close> (lines 88-103).\<close>

definition case_answer :: "conn \<Rightarrow> json \<Rightarrow> state \<Rightarrow> state" where
  "case_answer ws data st =
     (case session_room st ws of
        None \<Rightarrow> st
      | Some (sData, rm) \<Rightarrow>
          if role sData = Some ''viewer'' then send (broadcaster rm) data st
          else if role sData = Some ''broadcaster'' \<and> truthy (field data ''to'')
          then (if Map_has_val (viewers rm) (field data ''to'')
                then (case Map_get_val (viewers rm) (field data ''to'') of
                        None \<Rightarrow> st
                      | Some v \<Rightarrow> send v data st)
                else st)
          else st)"

text \<open>\<open>case 'candidate'\<close> (lines 105-122).\<close>

definition case_candidate :: "conn \<Rightarrow> json \<Rightarrow> state \<Rightarrow> state" where
  "case_candidate ws data st =
     (case session_room st ws of
        None \<Rightarrow> st
      | Some (sData, rm) \<Rightarrow>
          if role sData = Some ''broadcaster'' then forward_to_viewer rm data st
          else send (broadcaster rm) data st)"

text \<open>The first line of the handler:
  \<open>typeof message === 'string' ? JSON.parse(message) : message\<close>.\<close>

definition decode :: "runtime \<Rightarrow> json \<Rightarrow> exn + json" where
  "decode rt message =
     (case message of
        JStr s \<Rightarrow> (case JSON_parse rt s of None \<Rightarrow> Inl SyntaxError | Some d \<Rightarrow> Inr d)
      | _ \<Rightarrow> Inr message)"

text \<open>The body of the \<open>try\<close> block. Reading \<open>data.type\<close> of \<open>null\<close> throws; a type
  that matches no \<open>case\<close> falls out of the \<open>switch\<close>.\<close>

definition handleMessage_try :: "runtime \<Rightarrow> conn \<Rightarrow> json \<Rightarrow> state \<Rightarrow> (exn + state) option" where
  "handleMessage_try rt ws message st =
     (case decode rt message of
        Inl e \<Rightarrow> Some (Inl e)
      | Inr data \<Rightarrow>
          if data = JNull then Some (Inl TypeError)
          else if field data ''type'' = Some (JStr ''create-room'')
          then map_option Inr (case_create_room ws st)
          else if field data ''type'' = Some (JStr ''join-room'')
          then Some (Inr (case_join_room rt ws data st))
          else if field data ''type'' = Some (JStr ''offer'')
          then Some (Inr (case_offer ws data st))
          else if field data ''type'' = Some (JStr ''answer'')
          then Some (Inr (case_answer ws data st))
          else if field data ''type'' = Some (JStr ''candidate'')
          then Some (Inr (case_candidate ws data st))
          else Some (Inr st))"

text \<open>\<open>handleMessage\<close>: the \<open>catch\<close> logs and returns. Every throw of the body
  comes before its first write, so the state then is the one the handler started in.\<close>

definition handleMessage :: "runtime \<Rightarrow> conn \<Rightarrow> json \<Rightarrow> state \<Rightarrow> state option" where
  "handleMessage rt ws message st =
     (case handleMessage_try rt ws message st of
        None \<Rightarrow> None
      | Some (Inl e) \<Rightarrow> Some st
      | Some (Inr st') \<Rightarrow> Some st')"

subsection \<open>handleClose\<close>

text \<open>The loop over \<open>room.viewers.values()\<close> (lines 144-148).\<close>

fun notify_viewers :: "conn list \<Rightarrow> state \<Rightarrow> state" where
  "notify_viewers [] st = st"
| "notify_viewers (viewer # vs) st =
     notify_viewers vs (if readyState st viewer = 1 then send viewer msg_room_closed st else st)"

text \<open>\<open>handleClose\<close> (lines 129-159). A missing field and the empty string are the
  values for which \<open>!roomId\<close> is true and \<open>id && ...\<close> is false.\<close>

definition handleClose :: "conn \<Rightarrow> state \<Rightarrow> state" where
  "handleClose ws st =
     (case sessionData st ws of
        None \<Rightarrow> st
      | Some sData \<Rightarrow>
          (let st1 = st\<lparr>sessionData := (sessionData st)(ws := None)\<rparr> in
           case roomId sData of
             None \<Rightarrow> st1
           | Some rid \<Rightarrow>
               if rid = [] then st1
               else (case Map_get (rooms st1) rid of
                       None \<Rightarrow> st1
                     | Some rm \<Rightarrow>
                         if role sData = Some ''broadcaster''
                         then (let st2 = notify_viewers (Map_values (viewers rm)) st1
                               in st2\<lparr>rooms := Map_delete rid (rooms st2)\<rparr>)
                         else (case id_viewer sData of
                                 None \<Rightarrow> st1
                               | Some vid \<Rightarrow>
                                   if vid \<noteq> [] \<and> Map_has (viewers rm) vid
                                   then (let st2 = st1\<lparr>rooms := Map_set rid
                                                 (rm\<lparr>viewers := Map_delete vid (viewers rm)\<rparr>)
                                                 (rooms st1)\<rparr>
                                         in if readyState st2 (broadcaster rm) = 1
                                            then send (broadcaster rm) (msg_viewer_disconnect vid) st2
                                            else st2)
                                   else st1))))"

subsection \<open>Runs of the relay\<close>

text \<open>
  The server calls the handlers one event at a time (\<open>message\<close> and \<open>close\<close> of the
  \<open>/ws\<close> route); between two events the environment may change the \<open>readyState\<close> of
  a socket. A relay that has just started has no room and no session.
\<close>

datatype event = Message conn json | Close conn | ReadyState conn nat

definition step :: "runtime \<Rightarrow> event \<Rightarrow> state \<Rightarrow> state option" where
  "step rt ev st =
     (case ev of
        Message ws message \<Rightarrow> handleMessage rt ws message st
      | Close ws \<Rightarrow> Some (handleClose ws st)
      | ReadyState c n \<Rightarrow> Some (st\<lparr>readyState := (readyState st)(c := n)\<rparr>))"

fun run :: "runtime \<Rightarrow> event list \<Rightarrow> state \<Rightarrow> state option" where
  "run rt [] st = Some st"
| "run rt (ev # evs) st = (case step rt ev st of None \<Rightarrow> None | Some st' \<Rightarrow> run rt evs st')"

definition init_state :: "(conn \<Rightarrow> nat) \<Rightarrow> rat stream \<Rightarrow> state" where
  "init_state ready src =
     \<lparr>rooms = [], sessionData = (\<lambda>c. None), readyState = ready, random_src = src, sent = []\<rparr>"


subsection \<open>Well-formed room codes and random sources\<close>

text \<open>A room code: six decimal digits, the first not zero.\<close>

definition is_digit :: "char \<Rightarrow> bool" where
  "is_digit c = (c \<in> set ''0123456789'')"

definition is_room_code :: "string \<Rightarrow> bool" where
  "is_room_code s = (length s = 6 \<and> list_all is_digit s \<and> hd s \<noteq> CHR ''0'')"

definition rooms_ok :: "state \<Rightarrow> bool" where
  "rooms_ok st = list_all (\<lambda>kv. is_room_code (fst kv)) (rooms st)"

text \<open>\<open>Math.random()\<close> returns a value in \<open>[0, 1)\<close>.\<close>

definition random_ok :: "rat stream \<Rightarrow> bool" where
  "random_ok src = (sset src \<subseteq> {r. 0 \<le> r \<and> r < 1})"

subsection \<open>A small runtime and messages, for evaluation\<close>

text \<open>
  The properties below hold for every runtime. To evaluate the handlers on concrete
  events, this one is right on the arguments it is used with: \<open>JSON.parse("null")\<close> is
  \<open>null\<close> and \<open>JSON.parse("{")\<close> throws; \<open>(0.5).toString(36)\<close> is \<open>"0.i"\<close>,
  \<open>(0.25).toString(36)\<close> is \<open>"0.9"\<close> and \<open>(0).toString(36)\<close> is \<open>"0"\<close>.
\<close>

definition small_runtime :: runtime where
  "small_runtime =
     \<lparr>JSON_parse = (\<lambda>s. if s = ''null'' then Some JNull else None),
      Number_toString36 = (\<lambda>r. if r = 1/2 then ''0.i'' else if r = 1/4 then ''0.9'' else ''0'')\<rparr>"

definition m_create :: json where
  "m_create = JObj [(''type'', JStr ''create-room'')]"

definition m_join :: "string \<Rightarrow> json" where
  "m_join rid = JObj [(''type'', JStr ''join-room''), (''roomId'', JStr rid)]"

definition m_offer :: "string \<Rightarrow> json" where
  "m_offer vid = JObj [(''type'', JStr ''offer''), (''to'', JStr vid), (''sdp'', JStr ''v=0'')]"

definition all_open :: "conn \<Rightarrow> nat" where
  "all_open c = 1"


text \<open>A run from the start: 0 creates room 550000, then 1 and 2 join it and get the
  identifiers \<open>i\<close> and \<open>9\<close>; the next value of \<open>Math.random()\<close> is again the one
  that gave \<open>9\<close>.\<close>

definition events_joined :: "event list" where
  "events_joined =
     [Message 0 m_create, Message 1 (m_join ''550000''), Message 2 (m_join ''550000'')]"

definition src_joined :: "rat stream" where
  "src_joined = (1/2) ## (1/2) ## sconst (1/4)"

definition state_joined :: state where
  "state_joined =
     \<lparr>rooms = [(''550000'', \<lparr>broadcaster = 0, viewers = [(''i'', 1), (''9'', 2)]\<rparr>)],
      sessionData =
        [0 \<mapsto> \<lparr>role = Some ''broadcaster'', roomId = Some ''550000'', id_viewer = None\<rparr>,
         1 \<mapsto> \<lparr>role = Some ''viewer'', roomId = Some ''550000'', id_viewer = Some ''i''\<rparr>,
         2 \<mapsto> \<lparr>role = Some ''viewer'', roomId = Some ''550000'', id_viewer = Some ''9''\<rparr>],
      readyState = all_open,
      random_src = sconst (1/4),
      sent = [(0, msg_room_created ''550000''), (1, msg_joined_room ''550000'' ''i''),
              (0, msg_viewer_connect ''i''), (2, msg_joined_room ''550000'' ''9''),
              (0, msg_viewer_connect ''9'')]\<rparr>"

text \<open>Two frames that are JSON but lack a field of their type.\<close>

definition m_join_no_roomId :: json where
  "m_join_no_roomId = JObj [(''type'', JStr ''join-room'')]"

definition m_answer_no_sdp :: json where
  "m_answer_no_sdp = JObj [(''type'', JStr ''answer'')]"




section \<open>Properties\<close>

subsection \<open>Maps and room codes\<close>

lemma Map_get_set: "Map_get (Map_set k v m) k' = (if k' = k then Some v else Map_get m k')"
  by (induction m) (auto simp: Map_get_def)





lemma Map_has_get: "Map_has m k = (Map_get m k \<noteq> None)"
  by (simp add: Map_has_def Map_get_def)





lemma digit_char_digit: "d < 10 \<Longrightarrow> is_digit (digit_char d)"
proof -
  assume "d < 10"
  then have "d \<in> {0,1,2,3,4,5,6,7,8,9}" by auto
  then show ?thesis by (auto simp: digit_char_def is_digit_def)
qed

lemma digit_char_zero: "d < 10 \<Longrightarrow> (digit_char d = CHR ''0'') = (d = 0)"
proof -
  assume "d < 10"
  then have "d \<in> {0,1,2,3,4,5,6,7,8,9}" by auto
  then show ?thesis by (auto simp: digit_char_def)
qed

lemma Number_toString_digits: "list_all is_digit (Number_toString n)"
proof (induction n rule: Number_toString.induct)
  case (1 n)
  show ?case
  proof (cases "n < 10")
    case True
    then show ?thesis using digit_char_digit[of n] by (subst Number_toString.simps) simp
  next
    case False
    then show ?thesis using 1 digit_char_digit[of "n mod 10"]
      by (subst Number_toString.simps) simp
  qed
qed

lemma Number_toString_length:
  "10 ^ k \<le> n \<Longrightarrow> n < 10 ^ Suc k \<Longrightarrow> length (Number_toString n) = Suc k"
proof (induction k arbitrary: n)
  case 0
  then show ?case by (subst Number_toString.simps) simp
next
  case (Suc k)
  have "(1::nat) \<le> 10 ^ k" by simp
  then have "(10::nat) \<le> 10 ^ Suc k" by simp
  then have "10 \<le> n" using Suc.prems(1) by linarith
  moreover have "10 ^ k \<le> n div 10" using Suc.prems(1) by (simp add: less_eq_div_iff_mult_less_eq mult.commute)
  moreover have "n div 10 < 10 ^ Suc k" using Suc.prems(2) by (simp add: less_mult_imp_div_less mult.commute)
  ultimately show ?case using Suc.IH[of "n div 10"] by (subst Number_toString.simps) simp
qed

lemma Number_toString_hd: "0 < n \<Longrightarrow> hd (Number_toString n) \<noteq> CHR ''0''"
proof (induction n rule: Number_toString.induct)
  case (1 n)
  show ?case
  proof (cases "n < 10")
    case True
    then show ?thesis using 1(2) digit_char_zero[of n] by (subst Number_toString.simps) simp
  next
    case False
    then have "0 < n div 10" by simp
    moreover have "Number_toString (n div 10) \<noteq> []" by (subst Number_toString.simps) simp
    ultimately show ?thesis using 1(1) False
      by (subst Number_toString.simps) simp
  qed
qed

lemma Number_toString_code:
  assumes "100000 \<le> n" "n \<le> 999999"
  shows "is_room_code (Number_toString n)"
proof -
  have "10 ^ 5 \<le> n" "n < 10 ^ Suc 5" using assms by simp_all
  then have "length (Number_toString n) = Suc 5" by (rule Number_toString_length)
  moreover have "0 < n" using assms by simp
  ultimately show ?thesis
    by (simp add: is_room_code_def Number_toString_digits Number_toString_hd)
qed

lemma generateRoomId_range:
  assumes "0 \<le> (r::rat)" "r < 1"
  shows "100000 \<le> nat \<lfloor>100000 + r * 900000\<rfloor> \<and> nat \<lfloor>100000 + r * 900000\<rfloor> \<le> 999999"
proof -
  have "100000 \<le> 100000 + r * 900000" using assms by simp
  then have a: "100000 \<le> \<lfloor>100000 + r * 900000\<rfloor>" by linarith
  have "100000 + r * 900000 < 1000000" using assms by simp
  then have b: "\<lfloor>100000 + r * 900000\<rfloor> < 1000000" by linarith
  show ?thesis using a b by linarith
qed

lemma generateRoomId_code: "0 \<le> r \<Longrightarrow> r < 1 \<Longrightarrow> is_room_code (generateRoomId r)"
  using generateRoomId_range[of r] by (simp add: generateRoomId_def Number_toString_code)

lemma is_room_code_nonempty: "is_room_code R \<Longrightarrow> R \<noteq> []"
  by (auto simp: is_room_code_def)

lemma rooms_ok_key: "rooms_ok st \<Longrightarrow> Map_get (rooms st) R = Some rm \<Longrightarrow> is_room_code R"
proof -
  assume ok: "rooms_ok st" and g: "Map_get (rooms st) R = Some rm"
  from g have "(R, rm) \<in> set (rooms st)" by (simp add: Map_get_def map_of_SomeD)
  with ok show ?thesis by (auto simp: rooms_ok_def list_all_iff)
qed

lemma random_ok_shd: "random_ok s \<Longrightarrow> 0 \<le> shd s \<and> shd s < 1"
  using shd_sset[of s] unfolding random_ok_def by blast

lemma random_ok_stl: "random_ok s \<Longrightarrow> random_ok (stl s)"
  using stl_sset[of _ s] unfolding random_ok_def by blast

subsection \<open>Evaluation on concrete events\<close>

lemmas relay_defs =
  step_def handleMessage_def handleMessage_try_def decode_def case_create_room_def
  case_join_room_def case_offer_def case_answer_def case_candidate_def session_room_def
  forward_to_viewer_def handleClose_def Math_random_def send_def new_viewerId_def
  generateRoomId_def Number_toString.simps digit_char_def while_in_use.simps
  Map_get_def Map_has_def Map_delete_def Map_values_def Map_get_val_def Map_has_val_def
  small_runtime_def m_create_def m_join_def m_offer_def init_state_def all_open_def

lemma run_joined:
  "run small_runtime events_joined (init_state all_open src_joined) = Some state_joined"
  unfolding events_joined_def src_joined_def state_joined_def
  by (simp add: relay_defs Let_def)

subsection \<open>The retry loop\<close>



lemma while_in_use_tables_aux:
  assumes "while_in_use rid st = Some r"
  shows "rooms (snd r) = rooms st \<and> sessionData (snd r) = sessionData st
         \<and> sent (snd r) = sent st \<and> readyState (snd r) = readyState st"
proof (rule while_in_use.raw_induct
    [where P = "\<lambda>rid st r. rooms (snd r) = rooms st \<and> sessionData (snd r) = sessionData st
                  \<and> sent (snd r) = sent st \<and> readyState (snd r) = readyState st", OF _ assms])
  fix f :: "string \<Rightarrow> state \<Rightarrow> (string \<times> state) option" and rid st r
  assume IH: "\<And>rid st r. f rid st = Some r \<Longrightarrow>
                rooms (snd r) = rooms st \<and> sessionData (snd r) = sessionData st
                \<and> sent (snd r) = sent st \<and> readyState (snd r) = readyState st"
    and eq: "(if Map_has (rooms st) rid
              then f (generateRoomId (fst (Math_random st))) (snd (Math_random st))
              else Some (rid, st)) = Some r"
  show "rooms (snd r) = rooms st \<and> sessionData (snd r) = sessionData st
        \<and> sent (snd r) = sent st \<and> readyState (snd r) = readyState st"
  proof (cases "Map_has (rooms st) rid")
    case True
    then have "f (generateRoomId (fst (Math_random st))) (snd (Math_random st)) = Some r"
      using eq by simp
    from IH[OF this] show ?thesis by (simp add: Math_random_def)
  next
    case False
    then show ?thesis using eq by auto
  qed
qed

lemma while_in_use_tables:
  assumes "while_in_use rid st = Some (rid', st')"
  shows "rooms st' = rooms st \<and> sessionData st' = sessionData st \<and> sent st' = sent st
         \<and> readyState st' = readyState st"
  using while_in_use_tables_aux[OF assms] by simp

lemma while_in_use_code:
  assumes "while_in_use rid st = Some r"
  shows "random_ok (random_src st) \<and> is_room_code rid
         \<longrightarrow> random_ok (random_src (snd r)) \<and> is_room_code (fst r)"
proof (rule while_in_use.raw_induct
    [where P = "\<lambda>rid st r. random_ok (random_src st) \<and> is_room_code rid
                  \<longrightarrow> random_ok (random_src (snd r)) \<and> is_room_code (fst r)", OF _ assms])
  fix f :: "string \<Rightarrow> state \<Rightarrow> (string \<times> state) option" and rid st r
  assume IH: "\<And>rid st r. f rid st = Some r \<Longrightarrow>
                random_ok (random_src st) \<and> is_room_code rid
                \<longrightarrow> random_ok (random_src (snd r)) \<and> is_room_code (fst r)"
    and eq: "(if Map_has (rooms st) rid
              then f (generateRoomId (fst (Math_random st))) (snd (Math_random st))
              else Some (rid, st)) = Some r"
  show "random_ok (random_src st) \<and> is_room_code rid
        \<longrightarrow> random_ok (random_src (snd r)) \<and> is_room_code (fst r)"
  proof (cases "Map_has (rooms st) rid")
    case True
    then have "f (generateRoomId (fst (Math_random st))) (snd (Math_random st)) = Some r"
      using eq by simp
    from IH[OF this] show ?thesis
      using random_ok_shd[of "random_src st"] random_ok_stl[of "random_src st"]
      by (simp add: Math_random_def generateRoomId_code)
  next
    case False
    then show ?thesis using eq by auto
  qed
qed

lemma while_in_use_result:
  assumes "while_in_use rid st = Some r"
  shows "\<not> Map_has (rooms st) (fst r)
         \<and> (fst r = rid \<or> (\<exists>k. fst r = generateRoomId (random_src st !! k)))"
proof (rule while_in_use.raw_induct
    [where P = "\<lambda>rid st r. \<not> Map_has (rooms st) (fst r)
         \<and> (fst r = rid \<or> (\<exists>k. fst r = generateRoomId (random_src st !! k)))", OF _ assms])
  fix f :: "string \<Rightarrow> state \<Rightarrow> (string \<times> state) option" and rid st r
  assume IH: "\<And>rid st r. f rid st = Some r \<Longrightarrow>
                \<not> Map_has (rooms st) (fst r)
                \<and> (fst r = rid \<or> (\<exists>k. fst r = generateRoomId (random_src st !! k)))"
    and eq: "(if Map_has (rooms st) rid
              then f (generateRoomId (fst (Math_random st))) (snd (Math_random st))
              else Some (rid, st)) = Some r"
  show "\<not> Map_has (rooms st) (fst r)
        \<and> (fst r = rid \<or> (\<exists>k. fst r = generateRoomId (random_src st !! k)))"
  proof (cases "Map_has (rooms st) rid")
    case True
    then have "f (generateRoomId (fst (Math_random st))) (snd (Math_random st)) = Some r"
      using eq by simp
    from IH[OF this] have a: "\<not> Map_has (rooms st) (fst r)"
      and b: "fst r = generateRoomId (shd (random_src st))
              \<or> (\<exists>k. fst r = generateRoomId (stl (random_src st) !! k))"
      by (simp_all add: Math_random_def)
    from b have "\<exists>k. fst r = generateRoomId (random_src st !! k)"
    proof
      assume "fst r = generateRoomId (shd (random_src st))"
      then have "fst r = generateRoomId (random_src st !! 0)" by simp
      then show ?thesis ..
    next
      assume "\<exists>k. fst r = generateRoomId (stl (random_src st) !! k)"
      then obtain k where "fst r = generateRoomId (random_src st !! Suc k)" by auto
      then show ?thesis ..
    qed
    then show ?thesis using a by simp
  next
    case False
    then show ?thesis using eq by auto
  qed
qed

subsection \<open>The cases of the handlers\<close>

lemma send_fields [simp]:
  "rooms (send c m st) = rooms st" "sessionData (send c m st) = sessionData st"
  "readyState (send c m st) = readyState st" "random_src (send c m st) = random_src st"
  by (simp_all add: send_def)

lemma handleMessage_create_room:
  assumes "decode rt message = Inr data"
    and "field data ''type'' = Some (JStr ''create-room'')"
  shows "handleMessage rt ws message st = case_create_room ws st"
proof -
  have "data \<noteq> JNull" using assms(2) by auto
  then show ?thesis using assms
    by (cases "case_create_room ws st") (simp_all add: handleMessage_def handleMessage_try_def)
qed

lemma handleMessage_join_room:
  assumes "decode rt message = Inr data"
    and "field data ''type'' = Some (JStr ''join-room'')"
  shows "handleMessage rt ws message st = Some (case_join_room rt ws data st)"
proof -
  have "data \<noteq> JNull" using assms(2) by auto
  then show ?thesis using assms
    by (simp add: handleMessage_def handleMessage_try_def)
qed

lemma handleMessage_offer:
  assumes "decode rt message = Inr data"
    and "field data ''type'' = Some (JStr ''offer'')"
  shows "handleMessage rt ws message st = Some (case_offer ws data st)"
proof -
  have "data \<noteq> JNull" using assms(2) by auto
  then show ?thesis using assms
    by (simp add: handleMessage_def handleMessage_try_def)
qed

lemma case_join_room_missing:
  "Map_get_val (rooms st) (field data ''roomId'') = None
   \<Longrightarrow> case_join_room rt ws data st = send ws msg_error st"
  by (simp add: case_join_room_def Map_get_val_def split: option.splits)

lemma forward_to_viewer_tables:
  "rooms (forward_to_viewer rm data st) = rooms st
   \<and> sessionData (forward_to_viewer rm data st) = sessionData st"
  by (simp add: forward_to_viewer_def split: option.splits)

lemma relay_cases_tables:
  "rooms (case_offer ws data st) = rooms st \<and> sessionData (case_offer ws data st) = sessionData st"
  "rooms (case_answer ws data st) = rooms st \<and> sessionData (case_answer ws data st) = sessionData st"
  "rooms (case_candidate ws data st) = rooms st
   \<and> sessionData (case_candidate ws data st) = sessionData st"
  by (simp_all add: case_offer_def case_answer_def case_candidate_def forward_to_viewer_tables
      split: option.splits prod.splits)

lemma relay_cases_random:
  "random_src (case_offer ws data st) = random_src st"
  "random_src (case_answer ws data st) = random_src st"
  "random_src (case_candidate ws data st) = random_src st"
  by (simp_all add: case_offer_def case_answer_def case_candidate_def forward_to_viewer_def
      split: option.splits prod.splits)

lemma case_create_room_others:
  assumes "case_create_room ws st = Some st'" and "c \<noteq> ws"
  shows "sessionData st' c = sessionData st c"
proof -
  from assms(1) obtain rid st1 where
    w: "while_in_use (generateRoomId (fst (Math_random st))) (snd (Math_random st)) = Some (rid, st1)"
    by (auto simp: case_create_room_def split: option.splits)
  have "sessionData st1 = sessionData st"
    using while_in_use_tables[OF w] by (simp add: Math_random_def)
  then show ?thesis using assms w by (auto simp: case_create_room_def Let_def)
qed

lemma case_join_room_others:
  "c \<noteq> ws \<Longrightarrow> sessionData (case_join_room rt ws data st) c = sessionData st c"
  by (simp add: case_join_room_def Math_random_def Let_def split: option.splits)

lemma notify_viewers_eq:
  "notify_viewers vs st
     = st\<lparr>sent := sent st @ map (\<lambda>v. (v, msg_room_closed))
                               (filter (\<lambda>v. readyState st v = 1) vs)\<rparr>"
  by (induction vs arbitrary: st) (simp_all add: send_def)


lemma handleClose_random: "random_src (handleClose ws st) = random_src st"
  by (simp add: handleClose_def Let_def notify_viewers_eq split: option.splits)

subsection \<open>The invariant of the registry\<close>

text \<open>
  Every key of the registry is a room code, in every state the relay reaches from its
  start, for every runtime and every sequence of events, provided \<open>Math.random()\<close>
  returns values in \<open>[0, 1)\<close>. The theorems about closing and relaying assume
  \<open>rooms_ok\<close> for this reason only: a room code is not the empty string.
\<close>

lemma codes_Map_set:
  "list_all (\<lambda>kv. is_room_code (fst kv)) m \<Longrightarrow> is_room_code k
   \<Longrightarrow> list_all (\<lambda>kv. is_room_code (fst kv)) (Map_set k v m)"
  by (induction m) auto

lemma codes_Map_delete:
  "list_all (\<lambda>kv. is_room_code (fst kv)) m
   \<Longrightarrow> list_all (\<lambda>kv. is_room_code (fst kv)) (Map_delete k m)"
  by (simp add: Map_delete_def list_all_iff)

lemma rooms_ok_init: "rooms_ok (init_state ready src)"
  by (simp add: rooms_ok_def init_state_def)

lemma rooms_ok_handleClose:
  assumes "rooms_ok st"
  shows "rooms_ok (handleClose ws st)"
proof (cases "sessionData st ws")
  case None
  then show ?thesis using assms by (simp add: handleClose_def)
next
  case (Some s)
  have key: "is_room_code R" if "Map_get (rooms st) R = Some rm" for R rm
    using rooms_ok_key[OF assms that] .
  show ?thesis using assms Some
    by (auto simp: handleClose_def Let_def rooms_ok_def notify_viewers_eq
        codes_Map_set codes_Map_delete dest: key split: option.splits)
qed

lemma case_create_room_invariant:
  assumes "case_create_room ws st = Some st'" and "rooms_ok st" and "random_ok (random_src st)"
  shows "rooms_ok st' \<and> random_ok (random_src st')"
proof -
  let ?c = "generateRoomId (fst (Math_random st))"
  let ?st0 = "snd (Math_random st)"
  from assms(1) obtain rid st1 where w: "while_in_use ?c ?st0 = Some (rid, st1)"
    by (auto simp: case_create_room_def split: option.splits)
  have "random_ok (random_src ?st0) \<and> is_room_code ?c"
    using assms(3) random_ok_shd[of "random_src st"] random_ok_stl[of "random_src st"]
    by (simp add: Math_random_def generateRoomId_code)
  then have a: "random_ok (random_src st1) \<and> is_room_code rid"
    using while_in_use_code[OF w] by simp
  have b: "rooms st1 = rooms st" using while_in_use_tables[OF w] by (simp add: Math_random_def)
  show ?thesis using assms(1,2) w a b
    by (auto simp: case_create_room_def Let_def rooms_ok_def codes_Map_set)
qed

lemma case_join_room_invariant:
  assumes "rooms_ok st" and "random_ok (random_src st)"
  shows "rooms_ok (case_join_room rt ws data st)
         \<and> random_ok (random_src (case_join_room rt ws data st))"
proof -
  have key: "is_room_code R" if "Map_get (rooms st) R = Some rm" for R rm
    using rooms_ok_key[OF assms(1) that] .
  show ?thesis using assms random_ok_stl[of "random_src st"]
    by (auto simp: case_join_room_def Math_random_def Let_def rooms_ok_def codes_Map_set
        dest: key split: option.splits)
qed

lemma handleMessage_invariant:
  assumes "handleMessage rt ws message st = Some st'"
    and "rooms_ok st" and "random_ok (random_src st)"
  shows "rooms_ok st' \<and> random_ok (random_src st')"
proof (cases "decode rt message")
  case (Inl e)
  then show ?thesis using assms by (simp add: handleMessage_def handleMessage_try_def)
next
  case (Inr data)
  consider (null) "data = JNull"
    | (create) "data \<noteq> JNull" "field data ''type'' = Some (JStr ''create-room'')"
    | (join) "data \<noteq> JNull" "field data ''type'' = Some (JStr ''join-room'')"
    | (other) "data \<noteq> JNull" "field data ''type'' \<noteq> Some (JStr ''create-room'')"
        "field data ''type'' \<noteq> Some (JStr ''join-room'')"
    by blast
  then show ?thesis
  proof cases
    case null
    then show ?thesis using assms Inr by (simp add: handleMessage_def handleMessage_try_def)
  next
    case create
    then have "case_create_room ws st = Some st'"
      using assms(1) handleMessage_create_room[OF Inr create(2), of ws st] by simp
    then show ?thesis using assms(2,3) by (rule case_create_room_invariant)
  next
    case join
    then have "st' = case_join_room rt ws data st"
      using assms(1) handleMessage_join_room[OF Inr join(2), of ws st] by simp
    then show ?thesis using case_join_room_invariant[OF assms(2,3)] by simp
  next
    case other
    then show ?thesis
      using assms Inr relay_cases_tables[of ws data st] relay_cases_random[of ws data st]
      by (auto simp: handleMessage_def handleMessage_try_def rooms_ok_def split: if_splits)
  qed
qed

lemma step_invariant:
  assumes "step rt ev st = Some st'" and "rooms_ok st" and "random_ok (random_src st)"
  shows "rooms_ok st' \<and> random_ok (random_src st')"
proof (cases ev)
  case (Message ws message)
  then show ?thesis using assms handleMessage_invariant[of rt ws message st st']
    by (simp add: step_def)
next
  case (Close ws)
  then show ?thesis using assms rooms_ok_handleClose[of st ws] handleClose_random[of ws st]
    by (auto simp: step_def)
next
  case (ReadyState c n)
  then show ?thesis using assms by (auto simp: step_def rooms_ok_def)
qed

lemma run_invariant:
  "run rt evs st = Some st' \<Longrightarrow> rooms_ok st \<Longrightarrow> random_ok (random_src st)
   \<Longrightarrow> rooms_ok st' \<and> random_ok (random_src st')"
proof (induction evs arbitrary: st)
  case Nil
  then show ?case by simp
next
  case (Cons ev evs)
  from Cons.prems(1) obtain st1 where s: "step rt ev st = Some st1" and r: "run rt evs st1 = Some st'"
    by (auto split: option.splits)
  have "rooms_ok st1 \<and> random_ok (random_src st1)"
    using step_invariant[OF s Cons.prems(2,3)] .
  then show ?case using Cons.IH[OF r] by simp
qed

lemma reachable_rooms_ok:
  assumes "random_ok src" and "run rt evs (init_state ready src) = Some st"
  shows "rooms_ok st"
  using run_invariant[OF assms(2) rooms_ok_init] assms(1) by (simp add: init_state_def)

subsection \<open>Keys of the registry along a run\<close>





subsection \<open>Creating a room\<close>



text \<open>
  Without an unused candidate the loop has no exit: a create-room request for which every
  value of the random source gives a code in use never returns.
\<close>

lemma create_room_never_returns:
  assumes "decode rt message = Inr data"
    and "field data ''type'' = Some (JStr ''create-room'')"
    and "\<forall>k. Map_has (rooms st) (generateRoomId (random_src st !! k))"
  shows "handleMessage rt ws message st = None"
proof -
  let ?c = "generateRoomId (fst (Math_random st))"
  let ?st0 = "snd (Math_random st)"
  have "while_in_use ?c ?st0 = None"
  proof (cases "while_in_use ?c ?st0")
    case None
    then show ?thesis .
  next
    case (Some r)
    from while_in_use_result[OF Some]
    have a: "\<not> Map_has (rooms st) (fst r)"
      and b: "fst r = generateRoomId (shd (random_src st))
              \<or> (\<exists>k. fst r = generateRoomId (stl (random_src st) !! k))"
      by (simp_all add: Math_random_def)
    from b have "Map_has (rooms st) (fst r)"
    proof
      assume "fst r = generateRoomId (shd (random_src st))"
      then show ?thesis using assms(3)[rule_format, of 0] by simp
    next
      assume "\<exists>k. fst r = generateRoomId (stl (random_src st) !! k)"
      then obtain k where "fst r = generateRoomId (random_src st !! Suc k)" by auto
      then show ?thesis using assms(3)[rule_format, of "Suc k"] by simp
    qed
    with a show ?thesis by simp
  qed
  then have "case_create_room ws st = None" by (simp add: case_create_room_def)
  then show ?thesis using handleMessage_create_room[OF assms(1,2), of ws st] by simp
qed

subsection \<open>Joining a room\<close>

text \<open>
  C5. A join-room message whose \<open>roomId\<close> is no key of the registry (a code of no room,
  a value that is not a string, or no \<open>roomId\<close> at all) returns with one more message
  sent, the error to the sender, and with the registry, the session table and the rest
  of the state as they were.
\<close>

theorem join_room_not_found:
  assumes "decode rt message = Inr data"
    and "field data ''type'' = Some (JStr ''join-room'')"
    and "Map_get_val (rooms st) (field data ''roomId'') = None"
  shows "handleMessage rt ws message st = Some (st\<lparr>sent := sent st @ [(ws, msg_error)]\<rparr>)"
  using handleMessage_join_room[OF assms(1,2)] case_join_room_missing[OF assms(3)]
  by (simp add: send_def)

theorem join_room_not_found_witness:
  "decode small_runtime (m_join ''000000'') = Inr (m_join ''000000'')
   \<and> field (m_join ''000000'') ''type'' = Some (JStr ''join-room'')
   \<and> Map_get_val (rooms (init_state all_open (sconst 0))) (field (m_join ''000000'') ''roomId'') = None
   \<and> handleMessage small_runtime 4 (m_join ''000000'') (init_state all_open (sconst 0))
       = Some ((init_state all_open (sconst 0))\<lparr>sent := [(4, msg_error)]\<rparr>)"
proof -
  have h1: "decode small_runtime (m_join ''000000'') = Inr (m_join ''000000'')"
    by (simp add: decode_def m_join_def)
  have h2: "field (m_join ''000000'') ''type'' = Some (JStr ''join-room'')"
    by (simp add: m_join_def)
  have h3: "Map_get_val (rooms (init_state all_open (sconst 0)))
              (field (m_join ''000000'') ''roomId'') = None"
    by (simp add: m_join_def Map_get_val_def Map_get_def init_state_def)
  show ?thesis
    using h1 h2 h3 join_room_not_found[OF h1 h2 h3, of 4] by (simp add: init_state_def)
qed



subsection \<open>Viewer identifiers\<close>

text \<open>
  C7 fails on the code. The identifier of a viewer is a function of the value of
  \<open>Math.random()\<close> alone, and is not compared with the identifiers of the room: after
  \<open>events_joined\<close>, where viewer 2 has the identifier \<open>9\<close>, a join of connection 3
  for which \<open>Math.random()\<close> returns the same value is given \<open>9\<close> as well, and the
  entry of viewer 2 in the viewer map now names connection 3.
\<close>

theorem viewer_id_reused:
  "run small_runtime events_joined (init_state all_open src_joined) = Some state_joined
   \<and> sessionData state_joined 2
       = Some \<lparr>role = Some ''viewer'', roomId = Some ''550000'', id_viewer = Some ''9''\<rparr>
   \<and> handleMessage small_runtime 3 (m_join ''550000'') state_joined
       = Some (state_joined
           \<lparr>rooms := [(''550000'', \<lparr>broadcaster = 0, viewers = [(''i'', 1), (''9'', 3)]\<rparr>)],
            sessionData := (sessionData state_joined)
              (3 \<mapsto> \<lparr>role = Some ''viewer'', roomId = Some ''550000'', id_viewer = Some ''9''\<rparr>),
            sent := sent state_joined
              @ [(3, msg_joined_room ''550000'' ''9''), (0, msg_viewer_connect ''9'')]\<rparr>)"
proof -
  have "handleMessage small_runtime 3 (m_join ''550000'') state_joined
       = Some (state_joined
           \<lparr>rooms := [(''550000'', \<lparr>broadcaster = 0, viewers = [(''i'', 1), (''9'', 3)]\<rparr>)],
            sessionData := (sessionData state_joined)
              (3 \<mapsto> \<lparr>role = Some ''viewer'', roomId = Some ''550000'', id_viewer = Some ''9''\<rparr>),
            sent := sent state_joined
              @ [(3, msg_joined_room ''550000'' ''9''), (0, msg_viewer_connect ''9'')]\<rparr>)"
    by (simp add: state_joined_def relay_defs Let_def)
  moreover have "sessionData state_joined 2
       = Some \<lparr>role = Some ''viewer'', roomId = Some ''550000'', id_viewer = Some ''9''\<rparr>"
    by (simp add: state_joined_def)
  ultimately show ?thesis using run_joined by blast
qed

text \<open>For every runtime, two joins for which \<open>Math.random()\<close> returns the same value
  get the same identifier.\<close>

lemma new_viewerId_same_draw:
  assumes "field data ''roomId'' = Some (JStr R)"
    and "Map_get (rooms st) R = Some rm"
    and "shd (random_src st) = shd (stl (random_src st))"
  shows "sessionData (case_join_room rt b data (case_join_room rt a data st)) b
         = Some \<lparr>role = Some ''viewer'', roomId = Some R,
                 id_viewer = Some (new_viewerId rt (shd (random_src st)))\<rparr>
       \<and> sessionData (case_join_room rt a data st) a
         = Some \<lparr>role = Some ''viewer'', roomId = Some R,
                 id_viewer = Some (new_viewerId rt (shd (random_src st)))\<rparr>"
  using assms
  by (simp add: case_join_room_def Math_random_def Let_def Map_get_set)

subsection \<open>Closing a connection\<close>

text \<open>
  C10. Closing a connection that has no session returns the state it was given: the
  registry, the session table and the list of messages sent are unchanged.
\<close>

theorem handleClose_unbound:
  assumes "sessionData st ws = None"
  shows "handleClose ws st = st"
  using assms by (simp add: handleClose_def)

theorem handleClose_unbound_witness:
  "sessionData (init_state all_open (sconst 0)) 5 = None
   \<and> handleClose 5 (init_state all_open (sconst 0)) = init_state all_open (sconst 0)"
proof -
  have h: "sessionData (init_state all_open (sconst 0)) 5 = None"
    by (simp add: init_state_def)
  show ?thesis using h handleClose_unbound[OF h] by simp
qed






subsection \<open>Relaying an offer\<close>

text \<open>
  C3, as the code has it. An offer is passed on unchanged to one connection, the one
  registered under its \<open>to\<close> in the viewer map of the room of the sender's session,
  when the sender has a session (of either role), the room of that session is in the
  registry, and \<open>to\<close> is a non-empty string registered there. In every other case the
  handler returns the state it was given: nothing is sent to anyone.
\<close>

theorem offer_forwarded_to_registered_viewer:
  assumes "rooms_ok st"
    and "decode rt message = Inr data"
    and "field data ''type'' = Some (JStr ''offer'')"
  shows "(\<forall>s R rm A v.
            sessionData st ws = Some s \<and> roomId s = Some R \<and> Map_get (rooms st) R = Some rm
            \<and> field data ''to'' = Some (JStr A) \<and> A \<noteq> [] \<and> Map_get (viewers rm) A = Some v
            \<longrightarrow> handleMessage rt ws message st = Some (st\<lparr>sent := sent st @ [(v, data)]\<rparr>))
       \<and> (\<not> (\<exists>s R rm A v.
            sessionData st ws = Some s \<and> roomId s = Some R \<and> Map_get (rooms st) R = Some rm
            \<and> field data ''to'' = Some (JStr A) \<and> A \<noteq> [] \<and> Map_get (viewers rm) A = Some v)
            \<longrightarrow> handleMessage rt ws message st = Some st)"
proof -
  have h: "handleMessage rt ws message st = Some (case_offer ws data st)"
    by (rule handleMessage_offer[OF assms(2,3)])
  have pos: "case_offer ws data st = st\<lparr>sent := sent st @ [(v, data)]\<rparr>"
    if "sessionData st ws = Some s" "roomId s = Some R" "Map_get (rooms st) R = Some rm"
       "field data ''to'' = Some (JStr A)" "A \<noteq> []" "Map_get (viewers rm) A = Some v"
    for s R rm A v
  proof -
    have "R \<noteq> []" using rooms_ok_key[OF assms(1) that(3)] by (rule is_room_code_nonempty)
    then have "session_room st ws = Some (s, rm)"
      using that(1-3) by (simp add: session_room_def)
    then show ?thesis using that(4-6)
      by (simp add: case_offer_def forward_to_viewer_def Map_has_val_def Map_get_val_def
          Map_has_get send_def)
  qed
  have neg: "case_offer ws data st = st"
    if "\<not> (\<exists>s R rm A v.
            sessionData st ws = Some s \<and> roomId s = Some R \<and> Map_get (rooms st) R = Some rm
            \<and> field data ''to'' = Some (JStr A) \<and> A \<noteq> [] \<and> Map_get (viewers rm) A = Some v)"
  proof (cases "session_room st ws")
    case None
    then show ?thesis by (simp add: case_offer_def)
  next
    case (Some p)
    obtain s rm where p: "p = (s, rm)" by (cases p)
    from Some p obtain R where s: "sessionData st ws = Some s" "roomId s = Some R"
      "Map_get (rooms st) R = Some rm"
      by (auto simp: session_room_def split: option.splits if_splits)
    have "forward_to_viewer rm data st = st"
    proof (cases "as_key (field data ''to'')")
      case None
      then show ?thesis by (simp add: forward_to_viewer_def Map_has_val_def)
    next
      case (Some A)
      then have to: "field data ''to'' = Some (JStr A)"
        by (cases "field data ''to''" rule: as_key.cases) auto
      show ?thesis
      proof (cases "Map_get (viewers rm) A")
        case None
        then show ?thesis using to
          by (simp add: forward_to_viewer_def Map_has_val_def Map_has_get)
      next
        case (Some v)
        then have "A = []" using that s to by blast
        then show ?thesis using to by (simp add: forward_to_viewer_def)
      qed
    qed
    then show ?thesis using Some p by (simp add: case_offer_def)
  qed
  show ?thesis using h pos neg by auto
qed

theorem offer_forwarded_to_registered_viewer_witness:
  "rooms_ok state_joined
   \<and> decode small_runtime (m_offer ''i'') = Inr (m_offer ''i'')
   \<and> field (m_offer ''i'') ''type'' = Some (JStr ''offer'')
   \<and> sessionData state_joined 0
       = Some \<lparr>role = Some ''broadcaster'', roomId = Some ''550000'', id_viewer = None\<rparr>
   \<and> Map_get (rooms state_joined) ''550000''
       = Some \<lparr>broadcaster = 0, viewers = [(''i'', 1), (''9'', 2)]\<rparr>
   \<and> field (m_offer ''i'') ''to'' = Some (JStr ''i'')
   \<and> Map_get [(''i'', 1), (''9'', 2::nat)] ''i'' = Some 1
   \<and> handleMessage small_runtime 0 (m_offer ''i'') state_joined
       = Some (state_joined\<lparr>sent := sent state_joined @ [(1, m_offer ''i'')]\<rparr>)"
proof -
  let ?s = "\<lparr>role = Some ''broadcaster'', roomId = Some ''550000'', id_viewer = None\<rparr>"
  let ?rm = "\<lparr>broadcaster = 0, viewers = [(''i'', 1), (''9'', 2::nat)]\<rparr>"
  have h1: "rooms_ok state_joined"
    by (simp add: rooms_ok_def state_joined_def is_room_code_def is_digit_def)
  have h2: "decode small_runtime (m_offer ''i'') = Inr (m_offer ''i'')"
    by (simp add: decode_def m_offer_def)
  have h3: "field (m_offer ''i'') ''type'' = Some (JStr ''offer'')"
    by (simp add: m_offer_def)
  have c: "sessionData state_joined 0 = Some ?s \<and> roomId ?s = Some ''550000''
           \<and> Map_get (rooms state_joined) ''550000'' = Some ?rm
           \<and> field (m_offer ''i'') ''to'' = Some (JStr ''i'') \<and> ''i'' \<noteq> []
           \<and> Map_get (viewers ?rm) ''i'' = Some 1"
    by (simp add: state_joined_def Map_get_def m_offer_def)
  have "handleMessage small_runtime 0 (m_offer ''i'') state_joined
       = Some (state_joined\<lparr>sent := sent state_joined @ [(1, m_offer ''i'')]\<rparr>)"
    using offer_forwarded_to_registered_viewer[OF h1 h2 h3, of 0] c by blast
  then show ?thesis using h1 h2 h3 c by simp
qed

text \<open>
  The claim as the specification states it fails for a sender that is not a
  broadcaster: after \<open>events_joined\<close> connection 2 is a viewer of room 550000, and its
  offer for the viewer \<open>i\<close> is delivered to connection 1.
\<close>

theorem offer_from_viewer_counterexample:
  "run small_runtime events_joined (init_state all_open src_joined) = Some state_joined
   \<and> sessionData state_joined 2
       = Some \<lparr>role = Some ''viewer'', roomId = Some ''550000'', id_viewer = Some ''9''\<rparr>
   \<and> handleMessage small_runtime 2 (m_offer ''i'') state_joined
       = Some (state_joined\<lparr>sent := sent state_joined @ [(1, m_offer ''i'')]\<rparr>)"
proof -
  have "handleMessage small_runtime 2 (m_offer ''i'') state_joined
       = Some (state_joined\<lparr>sent := sent state_joined @ [(1, m_offer ''i'')]\<rparr>)"
    by (simp add: state_joined_def relay_defs)
  moreover have "sessionData state_joined 2
       = Some \<lparr>role = Some ''viewer'', roomId = Some ''550000'', id_viewer = Some ''9''\<rparr>"
    by (simp add: state_joined_def)
  ultimately show ?thesis using run_joined by blast
qed

subsection \<open>Sessions are not bound once only\<close>

text \<open>
  C6, as the code has it. The session of a connection \<open>c\<close> is not changed by a message
  or a close of another connection, nor by a message of \<open>c\<close> itself unless that message
  is a create-room, or a join-room whose \<open>roomId\<close> is a key of the registry: every
  other message of \<open>c\<close> leaves the session table and the registry as they were.
\<close>

theorem session_changed_only_by_own_binding:
  "(ws \<noteq> c \<and> handleMessage rt ws message st = Some st'
      \<longrightarrow> sessionData st' c = sessionData st c)
   \<and> (ws \<noteq> c \<longrightarrow> sessionData (handleClose ws st) c = sessionData st c)
   \<and> (handleMessage rt c message st = Some st'
      \<and> (\<forall>data. decode rt message = Inr data
            \<longrightarrow> field data ''type'' \<noteq> Some (JStr ''create-room'')
              \<and> (field data ''type'' = Some (JStr ''join-room'')
                   \<longrightarrow> Map_get_val (rooms st) (field data ''roomId'') = None))
      \<longrightarrow> sessionData st' = sessionData st \<and> rooms st' = rooms st)"
proof (intro conjI impI)
  assume a: "ws \<noteq> c \<and> handleMessage rt ws message st = Some st'"
  then have c: "c \<noteq> ws" by simp
  show "sessionData st' c = sessionData st c"
  proof (cases "decode rt message")
    case (Inl e)
    then show ?thesis using a by (simp add: handleMessage_def handleMessage_try_def)
  next
    case (Inr data)
    consider (null) "data = JNull"
      | (create) "data \<noteq> JNull" "field data ''type'' = Some (JStr ''create-room'')"
      | (join) "data \<noteq> JNull" "field data ''type'' = Some (JStr ''join-room'')"
      | (other) "data \<noteq> JNull" "field data ''type'' \<noteq> Some (JStr ''create-room'')"
          "field data ''type'' \<noteq> Some (JStr ''join-room'')"
      by blast
    then show ?thesis
    proof cases
      case null
      then show ?thesis using a Inr by (simp add: handleMessage_def handleMessage_try_def)
    next
      case create
      then have "case_create_room ws st = Some st'"
        using a handleMessage_create_room[OF Inr create(2), of ws st] by simp
      then show ?thesis using c by (rule case_create_room_others)
    next
      case join
      then have "st' = case_join_room rt ws data st"
        using a handleMessage_join_room[OF Inr join(2), of ws st] by simp
      then show ?thesis using c by (simp add: case_join_room_others)
    next
      case other
      then show ?thesis using a Inr relay_cases_tables[of ws data st]
        by (auto simp: handleMessage_def handleMessage_try_def split: if_splits)
    qed
  qed
next
  assume "ws \<noteq> c"
  then show "sessionData (handleClose ws st) c = sessionData st c"
    by (auto simp: handleClose_def Let_def notify_viewers_eq split: option.splits)
next
  assume a: "handleMessage rt c message st = Some st'
      \<and> (\<forall>data. decode rt message = Inr data
            \<longrightarrow> field data ''type'' \<noteq> Some (JStr ''create-room'')
              \<and> (field data ''type'' = Some (JStr ''join-room'')
                   \<longrightarrow> Map_get_val (rooms st) (field data ''roomId'') = None))"
  have "sessionData st' = sessionData st \<and> rooms st' = rooms st"
  proof (cases "decode rt message")
    case (Inl e)
    then show ?thesis using a by (simp add: handleMessage_def handleMessage_try_def)
  next
    case (Inr data)
    then have nc: "field data ''type'' \<noteq> Some (JStr ''create-room'')"
      and nj: "field data ''type'' = Some (JStr ''join-room'')
                 \<Longrightarrow> Map_get_val (rooms st) (field data ''roomId'') = None"
      using a by simp_all
    show ?thesis
    proof (cases "field data ''type'' = Some (JStr ''join-room'')")
      case True
      then have "st' = send c msg_error st"
        using a handleMessage_join_room[OF Inr True, of c st] case_join_room_missing[OF nj[OF True]]
        by simp
      then show ?thesis by simp
    next
      case False
      then show ?thesis using a Inr nc relay_cases_tables[of c data st]
        by (auto simp: handleMessage_def handleMessage_try_def split: if_splits)
    qed
  qed
  then show "sessionData st' = sessionData st" and "rooms st' = rooms st" by simp_all
qed

theorem session_changed_only_by_own_binding_witness:
  "(0::nat) \<noteq> 1
   \<and> handleMessage small_runtime 0 (m_offer ''i'') state_joined
       = Some (state_joined\<lparr>sent := sent state_joined @ [(1, m_offer ''i'')]\<rparr>)
   \<and> sessionData (state_joined\<lparr>sent := sent state_joined @ [(1, m_offer ''i'')]\<rparr>) 1
       = sessionData state_joined 1
   \<and> sessionData state_joined 1
       = Some \<lparr>role = Some ''viewer'', roomId = Some ''550000'', id_viewer = Some ''i''\<rparr>"
proof -
  have h: "handleMessage small_runtime 0 (m_offer ''i'') state_joined
       = Some (state_joined\<lparr>sent := sent state_joined @ [(1, m_offer ''i'')]\<rparr>)"
    by (simp add: state_joined_def relay_defs)
  have n: "(0::nat) \<noteq> 1" by simp
  have "sessionData (state_joined\<lparr>sent := sent state_joined @ [(1, m_offer ''i'')]\<rparr>) 1
       = sessionData state_joined 1"
    using session_changed_only_by_own_binding[of 0 1 small_runtime "m_offer ''i''" state_joined
        "state_joined\<lparr>sent := sent state_joined @ [(1, m_offer ''i'')]\<rparr>"] n h
    by blast
  moreover have "sessionData state_joined 1
       = Some \<lparr>role = Some ''viewer'', roomId = Some ''550000'', id_viewer = Some ''i''\<rparr>"
    by (simp add: state_joined_def)
  ultimately show ?thesis using h n by blast
qed

text \<open>
  The claim as the specification states it fails: after \<open>events_joined\<close> connection 1
  is bound as viewer \<open>i\<close> of room 550000; its create-room is carried out like any
  other, adds room 325000 to the registry and overwrites its session.
\<close>

theorem rebinding_counterexample:
  "run small_runtime events_joined (init_state all_open src_joined) = Some state_joined
   \<and> sessionData state_joined 1
       = Some \<lparr>role = Some ''viewer'', roomId = Some ''550000'', id_viewer = Some ''i''\<rparr>
   \<and> handleMessage small_runtime 1 m_create state_joined
       = Some (state_joined
            \<lparr>rooms := [(''550000'', \<lparr>broadcaster = 0, viewers = [(''i'', 1), (''9'', 2)]\<rparr>),
                       (''325000'', \<lparr>broadcaster = 1, viewers = []\<rparr>)],
             sessionData := (sessionData state_joined)
               (1 \<mapsto> \<lparr>role = Some ''broadcaster'', roomId = Some ''325000'', id_viewer = None\<rparr>),
             sent := sent state_joined @ [(1, msg_room_created ''325000'')]\<rparr>)"
proof -
  have "handleMessage small_runtime 1 m_create state_joined
        = Some (state_joined
            \<lparr>rooms := [(''550000'', \<lparr>broadcaster = 0, viewers = [(''i'', 1), (''9'', 2)]\<rparr>),
                       (''325000'', \<lparr>broadcaster = 1, viewers = []\<rparr>)],
             sessionData := (sessionData state_joined)
               (1 \<mapsto> \<lparr>role = Some ''broadcaster'', roomId = Some ''325000'', id_viewer = None\<rparr>),
             sent := sent state_joined @ [(1, msg_room_created ''325000'')]\<rparr>)"
    by (simp add: state_joined_def relay_defs)
  moreover have "sessionData state_joined 1
       = Some \<lparr>role = Some ''viewer'', roomId = Some ''550000'', id_viewer = Some ''i''\<rparr>"
    by (simp add: state_joined_def)
  ultimately show ?thesis using run_joined by blast
qed

subsection \<open>Frames that cannot be decoded\<close>

text \<open>
  C9, as the code has it. A frame on which the body of the handler throws, that is, a
  string that \<open>JSON.parse\<close> rejects or a frame that decodes to \<open>null\<close>, is caught:
  the handler returns, and the state (registry, session table, messages sent) is the one
  it was given. The body throws on no other frame.
\<close>

theorem undecodable_frame_discarded:
  "(decode rt message = Inl e \<or> decode rt message = Inr JNull
      \<longrightarrow> handleMessage rt ws message st = Some st)
   \<and> ((\<exists>e'. handleMessage_try rt ws message st = Some (Inl e'))
        = ((\<exists>e'. decode rt message = Inl e') \<or> decode rt message = Inr JNull))"
proof (intro conjI impI)
  assume "decode rt message = Inl e \<or> decode rt message = Inr JNull"
  then show "handleMessage rt ws message st = Some st"
    by (auto simp: handleMessage_def handleMessage_try_def)
next
  show "(\<exists>e'. handleMessage_try rt ws message st = Some (Inl e'))
        = ((\<exists>e'. decode rt message = Inl e') \<or> decode rt message = Inr JNull)"
    by (cases "decode rt message")
      (auto simp: handleMessage_try_def split: if_splits)
qed

theorem undecodable_frame_discarded_witness:
  "decode small_runtime (JStr ''{'') = Inl SyntaxError
   \<and> handleMessage small_runtime 1 (JStr ''{'') state_joined = Some state_joined
   \<and> decode small_runtime (JStr ''null'') = Inr JNull
   \<and> handleMessage small_runtime 1 (JStr ''null'') state_joined = Some state_joined"
proof -
  have h1: "decode small_runtime (JStr ''{'') = Inl SyntaxError"
    by (simp add: decode_def small_runtime_def)
  have h2: "decode small_runtime (JStr ''null'') = Inr JNull"
    by (simp add: decode_def small_runtime_def)
  have "handleMessage small_runtime 1 (JStr ''{'') state_joined = Some state_joined"
    using undecodable_frame_discarded[of small_runtime "JStr ''{''" SyntaxError 1 state_joined] h1
    by blast
  moreover have "handleMessage small_runtime 1 (JStr ''null'') state_joined = Some state_joined"
    using undecodable_frame_discarded[of small_runtime "JStr ''null''" SyntaxError 1 state_joined] h2
    by blast
  ultimately show ?thesis using h1 h2 by blast
qed

text \<open>
  The claim as the specification states it fails for JSON that lacks a field of its
  type: a join-room without \<open>roomId\<close> is answered with the error, and an answer
  without \<open>sdp\<close> from the viewer 1 is passed on to the broadcaster 0.
\<close>

theorem missing_field_counterexample:
  "handleMessage small_runtime 3 m_join_no_roomId state_joined
     = Some (state_joined\<lparr>sent := sent state_joined @ [(3, msg_error)]\<rparr>)
   \<and> handleMessage small_runtime 1 m_answer_no_sdp state_joined
     = Some (state_joined\<lparr>sent := sent state_joined @ [(0, m_answer_no_sdp)]\<rparr>)"
  by (simp add: state_joined_def relay_defs m_join_no_roomId_def m_answer_no_sdp_def)

end
